theory Spec2Isabelle
  imports Main "HOL-Library.AList"
begin

section \<open>Python values used by suit/admin.py\<close>

text \<open>
  The exceptions that the modelled statements can raise.  A function of the model that
  can raise returns \<open>error + 'a\<close>, with \<open>Inl\<close> for the exception.
\<close>

datatype error = TypeError | KeyError | AttributeError | ImportError | OtherError

text \<open>Scalar values: a primary key, a model attribute, an aggregate's result.\<close>

datatype pyval = VNone | VInt int | VStr string

fun truthy :: "pyval \<Rightarrow> bool" where
  "truthy VNone = False"
| "truthy (VInt n) = (n \<noteq> 0)"
| "truthy (VStr s) = (s \<noteq> [])"

text \<open>\<open>v + w\<close> on scalars: integers add, strings concatenate, anything else raises.\<close>

fun py_add :: "pyval \<Rightarrow> pyval \<Rightarrow> error + pyval" where
  "py_add (VInt a) (VInt b) = Inr (VInt (a + b))"
| "py_add (VStr a) (VStr b) = Inr (VStr (a @ b))"
| "py_add _ _ = Inl TypeError"

text \<open>
  An entry of an admin field list is a field name, or a tuple of names shown on one line.
  A field list is \<open>None\<close>, a tuple or a list; the framework accepts nothing else there.
\<close>

datatype entry = Name string | Names "string list"

datatype pyseq = PNone | PTuple "entry list" | PList "entry list"

fun truthy_seq :: "pyseq \<Rightarrow> bool" where
  "truthy_seq PNone = False"
| "truthy_seq (PTuple xs) = (xs \<noteq> [])"
| "truthy_seq (PList xs) = (xs \<noteq> [])"

text \<open>\<open>a or b\<close>\<close>

definition py_or :: "pyseq \<Rightarrow> pyseq \<Rightarrow> pyseq" where
  "py_or a b = (if truthy_seq a then a else b)"

text \<open>\<open>x in s\<close>: membership by equality; \<open>None\<close> is not iterable.\<close>

fun py_in :: "entry \<Rightarrow> pyseq \<Rightarrow> error + bool" where
  "py_in x PNone = Inl TypeError"
| "py_in x (PTuple xs) = Inr (x \<in> set xs)"
| "py_in x (PList xs) = Inr (x \<in> set xs)"

text \<open>\<open>list(s)\<close>\<close>

fun py_list :: "pyseq \<Rightarrow> error + entry list" where
  "py_list PNone = Inl TypeError"
| "py_list (PTuple xs) = Inr xs"
| "py_list (PList xs) = Inr xs"

text \<open>The entries of a field list, for stating properties; \<open>None\<close> has none.\<close>

fun items :: "pyseq \<Rightarrow> entry list" where
  "items PNone = []"
| "items (PTuple xs) = xs"
| "items (PList xs) = xs"

text \<open>
  The framework flattens a field list when it builds the form, so a name inside a tuple
  of names is listed as well.  \<open>occurrences s xs\<close> is how many times the list \<open>xs\<close>
  names the field \<open>s\<close>, the names inside tuples included.
\<close>

fun entry_names :: "entry \<Rightarrow> string list" where
  "entry_names (Name n) = [n]"
| "entry_names (Names ns) = ns"

definition flat_names :: "entry list \<Rightarrow> string list" where
  "flat_names xs = concat (map entry_names xs)"

definition occurrences :: "string \<Rightarrow> pyseq \<Rightarrow> nat" where
  "occurrences s xs = count_list (flat_names (items xs)) s"


section \<open>The admin options the sortable mixins read and write\<close>

text \<open>
  The attributes of an admin or inline instance that the mixins touch, as they stand after
  the framework's own \<open>__init__\<close> has run.  \<open>sortable\<close> is the class attribute of
  \<open>SortableModelAdminBase\<close> (\<open>'order'\<close> unless a subclass overrides it), and
  \<open>form_fields\<close> is the attribute \<open>fields\<close>.
\<close>

record admin_options =
  sortable :: string
  ordering :: pyseq
  form_fields :: pyseq
  list_display :: pyseq
  list_editable :: pyseq
  exclude :: pyseq

text \<open>
  The statement shared by the three lists that get the field appended:
  \<open>xs = list(xs) + [self.sortable]\<close>.
\<close>

definition append_sortable :: "string \<Rightarrow> pyseq \<Rightarrow> error + pyseq" where
  "append_sortable s xs =
     (case py_list xs of
        Inl e \<Rightarrow> Inl e
      | Inr ys \<Rightarrow> Inr (PList (ys @ [Name s])))"

text \<open>
  \<open>SortableTabularInlineBase.__init__\<close> (lines 49-55):
  \<^verbatim>\<open>
    self.ordering = (self.sortable,)
    self.fields = self.fields or []
    if self.fields and self.sortable not in self.fields:
        self.fields = list(self.fields) + [self.sortable]
  \<close>
\<close>

definition SortableTabularInlineBase_init :: "admin_options \<Rightarrow> error + admin_options" where
  "SortableTabularInlineBase_init self0 =
     (let self1 = self0\<lparr>ordering := PTuple [Name (sortable self0)]\<rparr>;
          self2 = self1\<lparr>form_fields := py_or (form_fields self1) (PList [])\<rparr>
      in if truthy_seq (form_fields self2) then
           (case py_in (Name (sortable self2)) (form_fields self2) of
              Inl e \<Rightarrow> Inl e
            | Inr present \<Rightarrow>
                if \<not> present then
                  (case append_sortable (sortable self2) (form_fields self2) of
                     Inl e \<Rightarrow> Inl e
                   | Inr fs \<Rightarrow> Inr (self2\<lparr>form_fields := fs\<rparr>))
                else Inr self2)
         else Inr self2)"

text \<open>\<open>SortableStackedInlineBase.__init__\<close> (lines 77-79) only sets the ordering.\<close>

definition SortableStackedInlineBase_init :: "admin_options \<Rightarrow> error + admin_options" where
  "SortableStackedInlineBase_init self0 =
     Inr (self0\<lparr>ordering := PTuple [Name (sortable self0)]\<rparr>)"

text \<open>
  The two unguarded appends of \<open>SortableModelAdmin.__init__\<close> have one shape:
  \<^verbatim>\<open>
    xs = xs or []
    if self.sortable not in xs:
        xs = list(xs) + [self.sortable]
  \<close>
\<close>

definition ensure_sortable :: "string \<Rightarrow> pyseq \<Rightarrow> error + pyseq" where
  "ensure_sortable s xs0 =
     (let xs = py_or xs0 (PList [])
      in case py_in (Name s) xs of
           Inl e \<Rightarrow> Inl e
         | Inr present \<Rightarrow> if \<not> present then append_sortable s xs else Inr xs)"

text \<open>
  \<open>SortableModelAdmin.__init__\<close> (lines 133-146):
  \<^verbatim>\<open>
    self.ordering = (self.sortable,)
    if self.list_display and self.sortable not in self.list_display:
        self.list_display = list(self.list_display) + [self.sortable]
    self.list_editable = self.list_editable or []
    if self.sortable not in self.list_editable:
        self.list_editable = list(self.list_editable) + [self.sortable]
    self.exclude = self.exclude or []
    if self.sortable not in self.exclude:
        self.exclude = list(self.exclude) + [self.sortable]
  \<close>
\<close>

definition SortableModelAdmin_init :: "admin_options \<Rightarrow> error + admin_options" where
  "SortableModelAdmin_init self0 =
     (let self1 = self0\<lparr>ordering := PTuple [Name (sortable self0)]\<rparr>;
          s = sortable self1
      in case (if truthy_seq (list_display self1) then
                 (case py_in (Name s) (list_display self1) of
                    Inl e \<Rightarrow> Inl e
                  | Inr present \<Rightarrow>
                      if \<not> present then append_sortable s (list_display self1)
                      else Inr (list_display self1))
               else Inr (list_display self1)) of
           Inl e \<Rightarrow> Inl e
         | Inr ld \<Rightarrow>
             (case ensure_sortable s (list_editable self1) of
                Inl e \<Rightarrow> Inl e
              | Inr le \<Rightarrow>
                  (case ensure_sortable s (exclude self1) of
                     Inl e \<Rightarrow> Inl e
                   | Inr ex \<Rightarrow>
                       Inr (self1\<lparr>list_display := ld, list_editable := le, exclude := ex\<rparr>))))"


section \<open>Change-list ordering\<close>

text \<open>
  What \<open>SortableChangeList.get_ordering\<close> reads of the change list: its model admin
  (\<open>self.model_admin\<close>) and the name of the model's primary key
  (\<open>self.model._meta.pk.name\<close>).
\<close>

record change_list =
  model_admin :: admin_options
  model_meta_ordering :: pyseq
  model_meta_pk_name :: string

text \<open>
  Lines 40-41:
  \<^verbatim>\<open>
    def get_ordering(self, request, queryset):
        return [self.model_admin.sortable, '-' + self.model._meta.pk.name]
  \<close>
\<close>

definition SortableChangeList_get_ordering :: "change_list \<Rightarrow> 'req \<Rightarrow> 'qs \<Rightarrow> string list" where
  "SortableChangeList_get_ordering self request queryset =
     [sortable (model_admin self), ''-'' @ model_meta_pk_name self]"

text \<open>The change-list classes an admin can answer with; lines 165-166 answer the sortable one.\<close>

datatype change_list_class = ChangeList | SortableChangeList

definition SortableModelAdmin_get_changelist :: "admin_options \<Rightarrow> 'req \<Rightarrow> change_list_class" where
  "SortableModelAdmin_get_changelist self request = SortableChangeList"


section \<open>Field sets of a stacked inline\<close>

text \<open>
  A field set is the tuple \<open>(title, options)\<close>; the inner loop of \<open>get_fieldsets\<close>
  walks the members of that tuple, so a field set is the list of its members.  The title
  is \<open>None\<close> or a string, the options are a dictionary.

  The method changes the lists under \<open>'fields'\<close> in place, and the same list object can
  stand in several places (in two groups, or in the class attribute the framework returns
  at every call).  So the values of the dictionary are references into a store of
  sequence objects, a reference being an index of the store, and the method takes the
  store and returns it changed.  When it raises, the store is returned as it stood then.
\<close>

datatype line = Title "string option" | Options "(string \<times> nat) list"

text \<open>
  \<open>xs.remove(x)\<close> drops the first occurrence and \<open>xs.insert(0, x)\<close> puts \<open>x\<close> in
  front, both on the object at \<open>r\<close>; only a list has these methods.  (\<open>remove\<close> is
  called under \<open>x in xs\<close> only, so its \<open>ValueError\<close> cannot arise.)
\<close>

definition list_remove :: "nat \<Rightarrow> entry \<Rightarrow> pyseq list \<Rightarrow> error + pyseq list" where
  "list_remove r x st =
     (case st ! r of
        PList xs \<Rightarrow> Inr (st[r := PList (remove1 x xs)])
      | _ \<Rightarrow> Inl AttributeError)"

definition list_insert0 :: "nat \<Rightarrow> entry \<Rightarrow> pyseq list \<Rightarrow> error + pyseq list" where
  "list_insert0 r x st =
     (case st ! r of
        PList xs \<Rightarrow> Inr (st[r := PList (x # xs)])
      | _ \<Rightarrow> Inl AttributeError)"

text \<open>
  The inner loop of lines 92-104 over the members of one field set, with the flag
  \<open>sortable_added\<close> passed in and out.  \<open>line.get('fields')\<close> is \<open>None\<close> for a
  dictionary without the key, and \<open>x in None\<close> raises.
  \<^verbatim>\<open>
    for line in fieldset:
        if not line or not isinstance(line, dict):
            continue
        fields = line.get('fields')
        if self.sortable in fields:
            fields.remove(self.sortable)
        if not sortable_added:
            fields.insert(0, self.sortable)
            sortable_added = True
            break
  \<close>
\<close>

fun fieldset_lines ::
    "string \<Rightarrow> bool \<Rightarrow> line list \<Rightarrow> pyseq list \<Rightarrow>
     (error \<times> pyseq list) + (bool \<times> pyseq list)" where
  "fieldset_lines s added [] st = Inr (added, st)"
| "fieldset_lines s added (Title t # ls) st = fieldset_lines s added ls st"
| "fieldset_lines s added (Options d # ls) st =
     (if d = [] then fieldset_lines s added ls st
      else
        (case map_of d ''fields'' of
           None \<Rightarrow> Inl (TypeError, st)
         | Some fields_ref \<Rightarrow>
             (case py_in (Name s) (st ! fields_ref) of
                Inl e \<Rightarrow> Inl (e, st)
              | Inr present \<Rightarrow>
                  (case (if present then list_remove fields_ref (Name s) st else Inr st) of
                     Inl e \<Rightarrow> Inl (e, st)
                   | Inr st1 \<Rightarrow>
                       if \<not> added then
                         (case list_insert0 fields_ref (Name s) st1 of
                            Inl e \<Rightarrow> Inl (e, st1)
                          | Inr st2 \<Rightarrow> Inr (True, st2))
                       else fieldset_lines s added ls st1))))"

text \<open>The outer loop of line 91, \<open>for fieldset in fieldsets\<close>.\<close>

fun fieldsets_loop ::
    "string \<Rightarrow> bool \<Rightarrow> line list list \<Rightarrow> pyseq list \<Rightarrow>
     (error \<times> pyseq list) + pyseq list" where
  "fieldsets_loop s added [] st = Inr st"
| "fieldsets_loop s added (fieldset # rest) st =
     (case fieldset_lines s added fieldset st of
        Inl e \<Rightarrow> Inl e
      | Inr (added', st') \<Rightarrow> fieldsets_loop s added' rest st')"

text \<open>
  \<open>SortableStackedInlineBase.get_fieldsets\<close> (lines 81-106).  Its argument
  \<open>fieldsets\<close> is what the framework's \<open>get_fieldsets\<close> returned, and it returns that
  same object, with the lists it refers to changed.
\<close>

definition SortableStackedInlineBase_get_fieldsets ::
    "admin_options \<Rightarrow> line list list \<Rightarrow> pyseq list \<Rightarrow>
     (error \<times> pyseq list) + (line list list \<times> pyseq list)" where
  "SortableStackedInlineBase_get_fieldsets self fieldsets st =
     (case fieldsets_loop (sortable self) False fieldsets st of
        Inl e \<Rightarrow> Inl e
      | Inr st' \<Rightarrow> Inr (fieldsets, st'))"


section \<open>Saving a model object\<close>

text \<open>
  A model object: its primary key (\<open>obj.pk\<close>) and its other attributes.
\<close>

record model_obj =
  pk :: pyval
  attr :: "string \<rightharpoonup> pyval"

text \<open>
  \<open>SortableModelAdmin.save_model\<close> (lines 168-177).  \<open>aggregate_Max f\<close> stands for
  \<open>obj.__class__.objects.aggregate(models.Max(f))\<close>, a dictionary, and
  \<open>super_save_model\<close> for the framework's \<open>save_model\<close>, both the host's.
  \<^verbatim>\<open>
    if not obj.pk:
        max_order = obj.__class__.objects.aggregate(models.Max(self.sortable))
        try:
            next_order = max_order['%s__max' % self.sortable] + 1
        except TypeError:
            next_order = 1
        setattr(obj, self.sortable, next_order)
    super(SortableModelAdmin, self).save_model(request, obj, form, change)
  \<close>
\<close>

definition next_order_of :: "(string \<times> pyval) list \<Rightarrow> string \<Rightarrow> error + pyval" where
  "next_order_of max_order s =
     (case (case map_of max_order (s @ ''__max'') of
              None \<Rightarrow> Inl KeyError
            | Some v \<Rightarrow> py_add v (VInt 1)) of
        Inl TypeError \<Rightarrow> Inr (VInt 1)
      | Inl e \<Rightarrow> Inl e
      | Inr v \<Rightarrow> Inr v)"

definition SortableModelAdmin_save_model ::
    "admin_options \<Rightarrow> (string \<Rightarrow> (string \<times> pyval) list) \<Rightarrow>
     ('req \<Rightarrow> model_obj \<Rightarrow> 'form \<Rightarrow> bool \<Rightarrow> 'res) \<Rightarrow>
     'req \<Rightarrow> model_obj \<Rightarrow> 'form \<Rightarrow> bool \<Rightarrow> error + 'res" where
  "SortableModelAdmin_save_model self aggregate_Max super_save_model request obj form change =
     (if \<not> truthy (pk obj) then
        (let max_order = aggregate_Max (sortable self)
         in case next_order_of max_order (sortable self) of
              Inl e \<Rightarrow> Inl e
            | Inr next_order \<Rightarrow>
                Inr (super_save_model request
                       (obj\<lparr>attr := (attr obj)(sortable self \<mapsto> next_order)\<rparr>) form change))
      else Inr (super_save_model request obj form change))"

text \<open>
  The host's aggregate over the rows of a table, for an integer column: the key is the
  field name followed by \<open>__max\<close>, the value the largest integer of the column, or
  \<open>None\<close> when no row has one.
\<close>

fun column_ints :: "string \<Rightarrow> model_obj list \<Rightarrow> int list" where
  "column_ints f [] = []"
| "column_ints f (r # rs) =
     (case attr r f of
        Some (VInt n) \<Rightarrow> n # column_ints f rs
      | _ \<Rightarrow> column_ints f rs)"

definition objects_aggregate_Max :: "model_obj list \<Rightarrow> string \<Rightarrow> (string \<times> pyval) list" where
  "objects_aggregate_Max rows f =
     [(f @ ''__max'',
       (case column_ints f rows of
          [] \<Rightarrow> VNone
        | n # ns \<Rightarrow> VInt (fold max ns n)))]"


section \<open>The order widget\<close>

text \<open>
  Widgets are objects of a store: a reference is an index into the list of allocated
  widgets.  The module holds one widget, made at import time (lines 28-32), under the key
  \<open>'order'\<close> of \<open>SortableListForm.Meta.widgets\<close>.
\<close>

record widget =
  attrs :: "(string \<times> string) list"

record module_state =
  heap :: "widget list"
  Meta_widgets :: "(string \<times> nat) list"

definition module_init :: module_state where
  "module_init =
     \<lparr>heap = [\<lparr>attrs = [(''class'', ''hide input-mini suit-sortable'')]\<rparr>],
      Meta_widgets = [(''order'', 0)]\<rparr>"

datatype kwarg = Widget nat | Opaque string

text \<open>
  \<open>copy.deepcopy(w)\<close> of a widget allocates a new widget with a copy of the attributes.
  A reference of a running program is always allocated, so \<open>r < length h\<close> here.
\<close>

definition deepcopy :: "nat \<Rightarrow> widget list \<Rightarrow> nat \<times> widget list" where
  "deepcopy r h = (length h, h @ [h ! r])"

text \<open>\<open>w.attrs[k] += v\<close> and \<open>w.attrs[k] = v\<close>, on the widget at \<open>r\<close>.\<close>

definition attrs_iadd :: "nat \<Rightarrow> string \<Rightarrow> string \<Rightarrow> widget list \<Rightarrow> error + widget list" where
  "attrs_iadd r k v h =
     (case map_of (attrs (h ! r)) k of
        None \<Rightarrow> Inl KeyError
      | Some old \<Rightarrow> Inr (h[r := (h ! r)\<lparr>attrs := AList.update k (old @ v) (attrs (h ! r))\<rparr>]))"

definition attrs_set :: "nat \<Rightarrow> string \<Rightarrow> string \<Rightarrow> widget list \<Rightarrow> widget list" where
  "attrs_set r k v h = h[r := (h ! r)\<lparr>attrs := AList.update k v (attrs (h ! r))\<rparr>]"

text \<open>
  \<open>SortableTabularInlineBase.formfield_for_dbfield\<close> (lines 57-61) hands the shared
  widget itself to the framework.  The result is the keyword arguments that the
  framework's \<open>formfield_for_dbfield\<close> is then called with, and the store.
\<close>

definition SortableTabularInlineBase_formfield_for_dbfield ::
    "admin_options \<Rightarrow> string \<Rightarrow> (string \<times> kwarg) list \<Rightarrow> module_state \<Rightarrow>
     error + ((string \<times> kwarg) list \<times> module_state)" where
  "SortableTabularInlineBase_formfield_for_dbfield self db_field_name kwargs st =
     (if db_field_name = sortable self then
        (case map_of (Meta_widgets st) ''order'' of
           None \<Rightarrow> Inl KeyError
         | Some r \<Rightarrow> Inr (AList.update ''widget'' (Widget r) kwargs, st))
      else Inr (kwargs, st))"

text \<open>
  \<open>SortableStackedInlineBase.formfield_for_dbfield\<close> (lines 108-115):
  \<^verbatim>\<open>
    if db_field.name == self.sortable:
        kwargs['widget'] = copy.deepcopy(SortableListForm.Meta.widgets['order'])
        kwargs['widget'].attrs['class'] += ' suit-sortable-stacked'
        kwargs['widget'].attrs['rowclass'] = ' suit-sortable-stacked-row'
    return super(...).formfield_for_dbfield(db_field, **kwargs)
  \<close>
\<close>

definition SortableStackedInlineBase_formfield_for_dbfield ::
    "admin_options \<Rightarrow> string \<Rightarrow> (string \<times> kwarg) list \<Rightarrow> module_state \<Rightarrow>
     error + ((string \<times> kwarg) list \<times> module_state)" where
  "SortableStackedInlineBase_formfield_for_dbfield self db_field_name kwargs st =
     (if db_field_name = sortable self then
        (case map_of (Meta_widgets st) ''order'' of
           None \<Rightarrow> Inl KeyError
         | Some r \<Rightarrow>
             (let (w, h1) = deepcopy r (heap st);
                  kwargs1 = AList.update ''widget'' (Widget w) kwargs
              in case attrs_iadd w ''class'' '' suit-sortable-stacked'' h1 of
                   Inl e \<Rightarrow> Inl e
                 | Inr h2 \<Rightarrow>
                     Inr (kwargs1,
                          st\<lparr>heap := attrs_set w ''rowclass'' '' suit-sortable-stacked-row'' h2\<rparr>)))
      else Inr (kwargs, st))"

text \<open>
  Any number of calls, one per database field name, each with no keyword arguments of
  the caller's; the results are collected in order.
\<close>

fun stacked_calls ::
    "admin_options \<Rightarrow> string list \<Rightarrow> module_state \<Rightarrow>
     error + ((string \<times> kwarg) list list \<times> module_state)" where
  "stacked_calls self [] st = Inr ([], st)"
| "stacked_calls self (n # ns) st =
     (case SortableStackedInlineBase_formfield_for_dbfield self n [] st of
        Inl e \<Rightarrow> Inl e
      | Inr (kw, st1) \<Rightarrow>
          (case stacked_calls self ns st1 of
             Inl e \<Rightarrow> Inl e
           | Inr (kws, st2) \<Rightarrow> Inr (kw # kws, st2)))"

text \<open>The attributes of the widget a call passed on, if it passed one.\<close>

definition widget_attrs :: "(string \<times> kwarg) list \<Rightarrow> module_state \<Rightarrow> (string \<times> string) list option" where
  "widget_attrs kwargs st =
     (case map_of kwargs ''widget'' of
        Some (Widget w) \<Rightarrow> Some (attrs (heap st ! w))
      | _ \<Rightarrow> None)"


section \<open>The optional patches at import time\<close>

text \<open>
  What running an \<open>import\<close> statement does, and what the two blocks of lines 182-223
  read: the installed applications and the outcome of their two imports.
\<close>

datatype import_result = Imported | Raises error

record environment =
  INSTALLED_APPS :: "string list"
  import_cms_admin_forms :: import_result
  import_content_status :: import_result

text \<open>
  What the blocks write: the widgets of the CMS page form (\<open>None\<close> while the form keeps
  its own) and the function behind \<open>ModelAdmin.get_list_filter\<close>.
\<close>

datatype list_filter_impl = framework_get_list_filter | db_get_list_filter

record patched =
  PageForm_Meta_widgets :: "(string \<times> string) list option"
  ModelAdmin_get_list_filter :: list_filter_impl

text \<open>
  Lines 182-191:
  \<^verbatim>\<open>
    if 'cms' in settings.INSTALLED_APPS:
        try:
            from cms.admin.forms import PageForm
            PageForm.Meta.widgets = {'publication_date': SuitSplitDateTimeWidget,
                                     'publication_end_date': SuitSplitDateTimeWidget}
        except ImportError:
            pass
  \<close>
\<close>

definition cms_patch :: "environment \<Rightarrow> patched \<Rightarrow> error + patched" where
  "cms_patch env p =
     (if ''cms'' \<in> set (INSTALLED_APPS env) then
        (case import_cms_admin_forms env of
           Imported \<Rightarrow>
             Inr (p\<lparr>PageForm_Meta_widgets :=
                      Some [(''publication_date'', ''SuitSplitDateTimeWidget''),
                            (''publication_end_date'', ''SuitSplitDateTimeWidget'')]\<rparr>)
         | Raises ImportError \<Rightarrow> Inr p
         | Raises e \<Rightarrow> Inl e)
      else Inr p)"

text \<open>
  Lines 193-223: the import, two definitions that cannot raise, and the assignment
  \<open>ModelAdmin.get_list_filter = db_get_list_filter\<close>, all under \<open>except ImportError\<close>.
\<close>

definition content_status_patch :: "environment \<Rightarrow> patched \<Rightarrow> error + patched" where
  "content_status_patch env p =
     (if ''content_status'' \<in> set (INSTALLED_APPS env) then
        (case import_content_status env of
           Imported \<Rightarrow> Inr (p\<lparr>ModelAdmin_get_list_filter := db_get_list_filter\<rparr>)
         | Raises ImportError \<Rightarrow> Inr p
         | Raises e \<Rightarrow> Inl e)
      else Inr p)"

text \<open>The two blocks in the order of the module.\<close>

definition load_patches :: "environment \<Rightarrow> patched \<Rightarrow> error + patched" where
  "load_patches env p =
     (case cms_patch env p of
        Inl e \<Rightarrow> Inl e
      | Inr p1 \<Rightarrow> content_status_patch env p1)"

text \<open>
  For the proofs about repeated calls: the shared widget is the first of the store, under
  the key \<open>'order'\<close>, with the attributes it was made with; and the attributes of a
  widget made by the stacked inline.
\<close>

definition shared_ok :: "module_state \<Rightarrow> bool" where
  "shared_ok st \<longleftrightarrow> Meta_widgets st = [(''order'', 0)] \<and> heap st \<noteq> [] \<and>
      attrs (heap st ! 0) = [(''class'', ''hide input-mini suit-sortable'')]"

definition stacked_attrs :: "(string \<times> string) list" where
  "stacked_attrs = [(''class'', ''hide input-mini suit-sortable suit-sortable-stacked''),
                    (''rowclass'', '' suit-sortable-stacked-row'')]"


section \<open>Properties\<close>

subsection \<open>Initialisation of the field lists\<close>

lemma py_or_items: "items (py_or xs (PList [])) = items xs"
  by (cases xs) (simp_all add: py_or_def)

lemma py_in_or: "py_in x (py_or xs (PList [])) = Inr (x \<in> set (items xs))"
  by (cases xs) (simp_all add: py_or_def)

lemma append_sortable_or:
  "append_sortable s (py_or xs (PList [])) = Inr (PList (items xs @ [Name s]))"
  by (cases xs) (simp_all add: append_sortable_def py_or_def)

lemma py_or_snoc: "py_or (PList (xs @ [x])) ys = PList (xs @ [x])"
  by (simp add: py_or_def)

lemma py_or_idem: "py_or (py_or xs (PList [])) (PList []) = py_or xs (PList [])"
  by (cases xs) (simp_all add: py_or_def)

lemma py_or_member: "x \<in> set (items xs) \<Longrightarrow> py_or xs (PList []) = xs"
  by (cases xs) (auto simp: py_or_def)

lemma ensure_sortable_eq:
  "ensure_sortable s xs =
     Inr (if Name s \<in> set (items xs) then py_or xs (PList []) else PList (items xs @ [Name s]))"
  by (simp add: ensure_sortable_def Let_def py_in_or append_sortable_or)

lemma tabular_init_eq:
  "SortableTabularInlineBase_init a =
     Inr (a\<lparr>ordering := PTuple [Name (sortable a)],
            form_fields := (if items (form_fields a) = [] then PList []
                            else if Name (sortable a) \<in> set (items (form_fields a)) then form_fields a
                            else PList (items (form_fields a) @ [Name (sortable a)]))\<rparr>)"
  by (cases "form_fields a")
     (simp_all add: SortableTabularInlineBase_init_def Let_def py_or_def append_sortable_def)

lemma admin_init_eq:
  "SortableModelAdmin_init a =
     Inr (a\<lparr>ordering := PTuple [Name (sortable a)],
            list_display := (if items (list_display a) = [] \<or> Name (sortable a) \<in> set (items (list_display a))
                             then list_display a
                             else PList (items (list_display a) @ [Name (sortable a)])),
            list_editable := (if Name (sortable a) \<in> set (items (list_editable a))
                              then py_or (list_editable a) (PList [])
                              else PList (items (list_editable a) @ [Name (sortable a)])),
            exclude := (if Name (sortable a) \<in> set (items (exclude a))
                              then py_or (exclude a) (PList [])
                              else PList (items (exclude a) @ [Name (sortable a)]))\<rparr>)"
  by (cases "list_display a")
     (simp_all add: SortableModelAdmin_init_def Let_def ensure_sortable_eq append_sortable_def)

lemma occurrences_snoc:
  "occurrences s (PList (xs @ [Name s])) = Suc (count_list (flat_names xs) s)"
  by (simp add: occurrences_def flat_names_def)

lemma occurrences_entry:
  "Name s \<in> set (items xs) \<Longrightarrow> occurrences s xs \<le> 1 \<Longrightarrow> occurrences s xs = 1"
proof -
  assume m: "Name s \<in> set (items xs)" and le: "occurrences s xs \<le> 1"
  from m have "s \<in> set (flat_names (items xs))"
    by (force simp: flat_names_def)
  then have "count_list (flat_names (items xs)) s \<noteq> 0"
    by (simp add: count_list_0_iff)
  with le show ?thesis
    by (simp add: occurrences_def)
qed

text \<open>
  Claim C3 fails as stated.  A tabular inline whose \<open>fields\<close> is \<open>None\<close> ends with
  the empty list, an empty \<open>list_display\<close> stays empty, a \<open>list_editable\<close> that
  holds the field twice still holds it twice, and \<open>fields\<close> that name the field inside
  a tuple of names get it appended, so that they name it twice.
\<close>

theorem init_empty_or_repeated_not_once:
  "SortableTabularInlineBase_init
     \<lparr>sortable = ''order'', ordering = PNone, form_fields = PNone,
      list_display = PTuple [Name ''__str__''], list_editable = PTuple [], exclude = PNone\<rparr>
   = Inr \<lparr>sortable = ''order'', ordering = PTuple [Name ''order''], form_fields = PList [],
      list_display = PTuple [Name ''__str__''], list_editable = PTuple [], exclude = PNone\<rparr>
   \<and> count_list (items (PList [])) (Name ''order'') = 0
   \<and> SortableModelAdmin_init
     \<lparr>sortable = ''order'', ordering = PNone, form_fields = PNone,
      list_display = PTuple [], list_editable = PList [Name ''order'', Name ''order''], exclude = PNone\<rparr>
   = Inr \<lparr>sortable = ''order'', ordering = PTuple [Name ''order''], form_fields = PNone,
      list_display = PTuple [], list_editable = PList [Name ''order'', Name ''order''],
      exclude = PList [Name ''order'']\<rparr>
   \<and> count_list (items (PTuple [])) (Name ''order'') = 0
   \<and> count_list (items (PList [Name ''order'', Name ''order''])) (Name ''order'') = 2
   \<and> SortableTabularInlineBase_init
     \<lparr>sortable = ''order'', ordering = PNone,
      form_fields = PTuple [Names [''order'', ''name''], Name ''code''],
      list_display = PTuple [Name ''__str__''], list_editable = PTuple [], exclude = PNone\<rparr>
   = Inr \<lparr>sortable = ''order'', ordering = PTuple [Name ''order''],
      form_fields = PList [Names [''order'', ''name''], Name ''code'', Name ''order''],
      list_display = PTuple [Name ''__str__''], list_editable = PTuple [], exclude = PNone\<rparr>
   \<and> occurrences ''order'' (PList [Names [''order'', ''name''], Name ''code'', Name ''order'']) = 2"
  by (simp add: SortableTabularInlineBase_init_def SortableModelAdmin_init_def Let_def
        py_or_def ensure_sortable_def append_sortable_def occurrences_def flat_names_def)

text \<open>
  Claim C3, amended.  No \<open>__init__\<close> raises.  Say that a list names the field simply
  when it names it at most once, the names inside tuples of names counted, and that not
  inside such a tuple.  Then afterwards \<open>fields\<close> (tabular inline) and \<open>list_display\<close>
  (model admin) name the sortable field exactly once when they were not empty and named
  it simply; an empty or \<open>None\<close> \<open>fields\<close> becomes \<open>[]\<close> and an empty or \<open>None\<close>
  \<open>list_display\<close> is left as it is, both without the field; and \<open>list_editable\<close>
  names it exactly once when it named it simply, empty and \<open>None\<close> included.
\<close>

theorem init_sortable_count:
  "(\<exists>a'. SortableTabularInlineBase_init a = Inr a' \<and>
      (items (form_fields a) = [] \<longrightarrow> form_fields a' = PList []) \<and>
      (items (form_fields a) \<noteq> [] \<and> occurrences (sortable a) (form_fields a) \<le> 1 \<and>
       (Name (sortable a) \<in> set (items (form_fields a)) \<or>
        occurrences (sortable a) (form_fields a) = 0) \<longrightarrow>
         occurrences (sortable a) (form_fields a') = 1)) \<and>
   (\<exists>a'. SortableModelAdmin_init a = Inr a' \<and>
      (items (list_display a) = [] \<longrightarrow> list_display a' = list_display a) \<and>
      (items (list_display a) \<noteq> [] \<and> occurrences (sortable a) (list_display a) \<le> 1 \<and>
       (Name (sortable a) \<in> set (items (list_display a)) \<or>
        occurrences (sortable a) (list_display a) = 0) \<longrightarrow>
         occurrences (sortable a) (list_display a') = 1) \<and>
      (occurrences (sortable a) (list_editable a) \<le> 1 \<and>
       (Name (sortable a) \<in> set (items (list_editable a)) \<or>
        occurrences (sortable a) (list_editable a) = 0) \<longrightarrow>
         occurrences (sortable a) (list_editable a') = 1))"
proof (intro conjI)
  show "\<exists>a'. SortableTabularInlineBase_init a = Inr a' \<and>
      (items (form_fields a) = [] \<longrightarrow> form_fields a' = PList []) \<and>
      (items (form_fields a) \<noteq> [] \<and> occurrences (sortable a) (form_fields a) \<le> 1 \<and>
       (Name (sortable a) \<in> set (items (form_fields a)) \<or>
        occurrences (sortable a) (form_fields a) = 0) \<longrightarrow>
         occurrences (sortable a) (form_fields a') = 1)"
    using occurrences_entry [of "sortable a" "form_fields a"]
    by (auto simp: tabular_init_eq occurrences_snoc) (simp add: occurrences_def)
  show "\<exists>a'. SortableModelAdmin_init a = Inr a' \<and>
      (items (list_display a) = [] \<longrightarrow> list_display a' = list_display a) \<and>
      (items (list_display a) \<noteq> [] \<and> occurrences (sortable a) (list_display a) \<le> 1 \<and>
       (Name (sortable a) \<in> set (items (list_display a)) \<or>
        occurrences (sortable a) (list_display a) = 0) \<longrightarrow>
         occurrences (sortable a) (list_display a') = 1) \<and>
      (occurrences (sortable a) (list_editable a) \<le> 1 \<and>
       (Name (sortable a) \<in> set (items (list_editable a)) \<or>
        occurrences (sortable a) (list_editable a) = 0) \<longrightarrow>
         occurrences (sortable a) (list_editable a') = 1)"
    using occurrences_entry [of "sortable a" "list_display a"]
      occurrences_entry [of "sortable a" "list_editable a"]
    by (auto simp: admin_init_eq occurrences_snoc py_or_member) (simp_all add: occurrences_def)
qed

text \<open>
  With \<open>fields = (('name', 'code'), 'title')\<close>, \<open>list_display = ('__str__',)\<close> and
  an empty \<open>list_editable\<close>, each of the three lists ends naming the field exactly once;
  with \<open>fields = None\<close> and no \<open>list_display\<close> these end as \<open>[]\<close> and as they
  were; and \<open>fields = ('name', 'order')\<close> still names the field once.
\<close>

theorem init_sortable_count_witness:
  "(\<exists>a'. SortableTabularInlineBase_init
           \<lparr>sortable = ''order'', ordering = PNone,
            form_fields = PTuple [Names [''name'', ''code''], Name ''title''],
            list_display = PTuple [Name ''__str__''], list_editable = PTuple [],
            exclude = PNone\<rparr> = Inr a' \<and>
         occurrences ''order'' (form_fields a') = 1) \<and>
   (\<exists>a'. SortableModelAdmin_init
           \<lparr>sortable = ''order'', ordering = PNone,
            form_fields = PTuple [Names [''name'', ''code''], Name ''title''],
            list_display = PTuple [Name ''__str__''], list_editable = PTuple [],
            exclude = PNone\<rparr> = Inr a' \<and>
         occurrences ''order'' (list_display a') = 1 \<and>
         occurrences ''order'' (list_editable a') = 1) \<and>
   (\<exists>a'. SortableTabularInlineBase_init
           \<lparr>sortable = ''order'', ordering = PNone, form_fields = PNone,
            list_display = PTuple [], list_editable = PNone, exclude = PNone\<rparr> = Inr a' \<and>
         form_fields a' = PList []) \<and>
   (\<exists>a'. SortableModelAdmin_init
           \<lparr>sortable = ''order'', ordering = PNone, form_fields = PNone,
            list_display = PTuple [], list_editable = PNone, exclude = PNone\<rparr> = Inr a' \<and>
         list_display a' = PTuple [] \<and>
         occurrences ''order'' (list_editable a') = 1) \<and>
   (\<exists>a'. SortableTabularInlineBase_init
           \<lparr>sortable = ''order'', ordering = PNone,
            form_fields = PTuple [Name ''name'', Name ''order''],
            list_display = PNone, list_editable = PNone, exclude = PNone\<rparr> = Inr a' \<and>
         occurrences ''order'' (form_fields a') = 1)"
  using init_sortable_count [of "\<lparr>sortable = ''order'', ordering = PNone,
            form_fields = PTuple [Names [''name'', ''code''], Name ''title''],
            list_display = PTuple [Name ''__str__''], list_editable = PTuple [],
            exclude = PNone\<rparr>"]
    init_sortable_count [of "\<lparr>sortable = ''order'', ordering = PNone, form_fields = PNone,
            list_display = PTuple [], list_editable = PNone, exclude = PNone\<rparr>"]
    init_sortable_count [of "\<lparr>sortable = ''order'', ordering = PNone,
            form_fields = PTuple [Name ''name'', Name ''order''],
            list_display = PNone, list_editable = PNone, exclude = PNone\<rparr>"]
  by (simp add: occurrences_def flat_names_def)

text \<open>
  Claim C8.  Running an \<open>__init__\<close> on its own result changes nothing, and a list that
  already holds the sortable field (\<open>fields\<close>, \<open>list_display\<close>, \<open>list_editable\<close>,
  \<open>exclude\<close>) is left as it is, so nothing is appended twice.
\<close>

theorem init_append_idempotent:
  "(\<exists>a'. SortableTabularInlineBase_init a = Inr a' \<and>
       SortableTabularInlineBase_init a' = Inr a' \<and>
       (Name (sortable a) \<in> set (items (form_fields a)) \<longrightarrow> form_fields a' = form_fields a)) \<and>
   (\<exists>a'. SortableModelAdmin_init a = Inr a' \<and>
       SortableModelAdmin_init a' = Inr a' \<and>
       (Name (sortable a) \<in> set (items (list_display a)) \<longrightarrow> list_display a' = list_display a) \<and>
       (Name (sortable a) \<in> set (items (list_editable a)) \<longrightarrow> list_editable a' = list_editable a) \<and>
       (Name (sortable a) \<in> set (items (exclude a)) \<longrightarrow> exclude a' = exclude a))"
proof (intro conjI)
  show "\<exists>a'. SortableTabularInlineBase_init a = Inr a' \<and>
       SortableTabularInlineBase_init a' = Inr a' \<and>
       (Name (sortable a) \<in> set (items (form_fields a)) \<longrightarrow> form_fields a' = form_fields a)"
    by (auto simp: tabular_init_eq)
  show "\<exists>a'. SortableModelAdmin_init a = Inr a' \<and>
       SortableModelAdmin_init a' = Inr a' \<and>
       (Name (sortable a) \<in> set (items (list_display a)) \<longrightarrow> list_display a' = list_display a) \<and>
       (Name (sortable a) \<in> set (items (list_editable a)) \<longrightarrow> list_editable a' = list_editable a) \<and>
       (Name (sortable a) \<in> set (items (exclude a)) \<longrightarrow> exclude a' = exclude a)"
    by (auto simp: admin_init_eq py_or_items py_or_idem py_or_member py_or_snoc)
qed

text \<open>
  Four lists that hold \<open>order\<close> already come back unchanged.
\<close>

theorem init_append_idempotent_witness:
  "(\<exists>a'. SortableTabularInlineBase_init
           \<lparr>sortable = ''order'', ordering = PNone,
            form_fields = PTuple [Name ''name'', Name ''order''],
            list_display = PTuple [Name ''order'', Name ''name''],
            list_editable = PList [Name ''order''],
            exclude = PTuple [Name ''order'']\<rparr> = Inr a' \<and>
         SortableTabularInlineBase_init a' = Inr a' \<and>
         form_fields a' = PTuple [Name ''name'', Name ''order'']) \<and>
   (\<exists>a'. SortableModelAdmin_init
           \<lparr>sortable = ''order'', ordering = PNone,
            form_fields = PTuple [Name ''name'', Name ''order''],
            list_display = PTuple [Name ''order'', Name ''name''],
            list_editable = PList [Name ''order''],
            exclude = PTuple [Name ''order'']\<rparr> = Inr a' \<and>
         SortableModelAdmin_init a' = Inr a' \<and>
         list_display a' = PTuple [Name ''order'', Name ''name''] \<and>
         list_editable a' = PList [Name ''order''] \<and>
         exclude a' = PTuple [Name ''order''])"
  using init_append_idempotent [of "\<lparr>sortable = ''order'', ordering = PNone,
            form_fields = PTuple [Name ''name'', Name ''order''],
            list_display = PTuple [Name ''order'', Name ''name''],
            list_editable = PList [Name ''order''],
            exclude = PTuple [Name ''order'']\<rparr>"]
  by simp

text \<open>
  Claim C9.  \<open>SortableModelAdmin.__init__\<close> raises nothing, and afterwards the
  sortable field is a member of \<open>list_editable\<close> and of \<open>exclude\<close>, whatever they were
  before, empty and \<open>None\<close> included.
\<close>

theorem admin_init_editable_and_excluded:
  "\<exists>a'. SortableModelAdmin_init a = Inr a' \<and>
        Name (sortable a) \<in> set (items (list_editable a')) \<and>
        Name (sortable a) \<in> set (items (exclude a'))"
  by (simp add: admin_init_eq py_or_items)

text \<open>
  From an empty \<open>list_editable\<close> and \<open>exclude = None\<close>.
\<close>

theorem admin_init_editable_and_excluded_witness:
  "\<exists>a'. SortableModelAdmin_init
          \<lparr>sortable = ''order'', ordering = PNone, form_fields = PNone,
           list_display = PTuple [Name ''__str__''], list_editable = PTuple [],
           exclude = PNone\<rparr> = Inr a' \<and>
        Name ''order'' \<in> set (items (list_editable a')) \<and>
        Name ''order'' \<in> set (items (exclude a'))"
  using admin_init_editable_and_excluded [of "\<lparr>sortable = ''order'', ordering = PNone, form_fields = PNone,
           list_display = PTuple [Name ''__str__''], list_editable = PTuple [],
           exclude = PNone\<rparr>"]
  by simp


subsection \<open>Change-list ordering is forced\<close>

text \<open>
  Claim C2.  The model admin answers with the sortable change list, whose
  \<open>get_ordering\<close> is, for every request and query set, the list of the sortable field and
  the primary key's name behind a minus sign; the \<open>ordering\<close> of the admin and of the
  model's \<open>Meta\<close> do not enter it.
\<close>

theorem get_ordering_forced:
  "SortableModelAdmin_get_changelist (model_admin self) request = SortableChangeList \<and>
   SortableChangeList_get_ordering self request queryset =
     [sortable (model_admin self), CHR ''-'' # model_meta_pk_name self] \<and>
   SortableChangeList_get_ordering
     (self\<lparr>model_admin := (model_admin self)\<lparr>ordering := ord\<rparr>, model_meta_ordering := mord\<rparr>)
     request' queryset' =
     SortableChangeList_get_ordering self request queryset"
  by (simp add: SortableModelAdmin_get_changelist_def SortableChangeList_get_ordering_def)

text \<open>
  An admin ordered by \<open>name\<close> on a model ordered by \<open>-name\<close> is listed by
  \<open>order\<close>, then \<open>-id\<close>.
\<close>

theorem get_ordering_forced_witness:
  "SortableModelAdmin_get_changelist
     \<lparr>sortable = ''order'', ordering = PTuple [Name ''name''], form_fields = PNone,
      list_display = PNone, list_editable = PNone, exclude = PNone\<rparr> () = SortableChangeList \<and>
   SortableChangeList_get_ordering
     \<lparr>model_admin = \<lparr>sortable = ''order'', ordering = PTuple [Name ''name''], form_fields = PNone,
        list_display = PNone, list_editable = PNone, exclude = PNone\<rparr>,
      model_meta_ordering = PTuple [Name ''-name''], model_meta_pk_name = ''id''\<rparr> () ()
   = [''order'', ''-id'']"
  using get_ordering_forced [of "\<lparr>model_admin = \<lparr>sortable = ''order'', ordering = PTuple [Name ''name''],
        form_fields = PNone, list_display = PNone, list_editable = PNone, exclude = PNone\<rparr>,
      model_meta_ordering = PTuple [Name ''-name''], model_meta_pk_name = ''id''\<rparr>" "()" "()"
      PNone PNone "()" "()"]
  by simp


subsection \<open>Field sets whose fields are a tuple\<close>

text \<open>
  Claim C4 does not hold of the code.  When the options of the first field set give
  \<open>'fields'\<close> as a tuple, which is how the framework hands on an inline's
  \<open>fields = ('name', 'code')\<close>, \<open>get_fieldsets\<close> returns no field sets: it raises
  \<open>AttributeError\<close>, at \<open>fields.remove\<close> when the tuple holds the sortable field and
  at \<open>fields.insert\<close> when it does not, and it leaves the store as it was.
\<close>

theorem get_fieldsets_tuple_fields_raise:
  assumes "map_of d ''fields'' = Some r" and "st ! r = PTuple xs"
  shows "SortableStackedInlineBase_get_fieldsets self ([Title t, Options d] # rest) st =
         Inl (AttributeError, st)"
proof -
  from assms(1) have d: "d \<noteq> []" by auto
  show ?thesis
    by (simp add: SortableStackedInlineBase_get_fieldsets_def d assms
          list_remove_def list_insert0_def)
qed

text \<open>
  The field set of an inline with \<open>fields = ('name', 'code')\<close> raises; the same with
  \<open>fields = ['name', 'code']\<close> gets the sortable field in front.
\<close>

theorem get_fieldsets_tuple_fields_raise_witness:
  "SortableStackedInlineBase_get_fieldsets
     \<lparr>sortable = ''order'', ordering = PNone, form_fields = PNone,
      list_display = PNone, list_editable = PNone, exclude = PNone\<rparr>
     [[Title None, Options [(''fields'', 0)]]]
     [PTuple [Name ''name'', Name ''code'']]
   = Inl (AttributeError, [PTuple [Name ''name'', Name ''code'']])
   \<and> SortableStackedInlineBase_get_fieldsets
     \<lparr>sortable = ''order'', ordering = PNone, form_fields = PNone,
      list_display = PNone, list_editable = PNone, exclude = PNone\<rparr>
     [[Title None, Options [(''fields'', 0)]]]
     [PList [Name ''name'', Name ''code'']]
   = Inr ([[Title None, Options [(''fields'', 0)]]],
          [PList [Name ''order'', Name ''name'', Name ''code'']])"
  using get_fieldsets_tuple_fields_raise [of "[(''fields'', 0)]" 0
      "[PTuple [Name ''name'', Name ''code'']]" "[Name ''name'', Name ''code'']"
      "\<lparr>sortable = ''order'', ordering = PNone, form_fields = PNone,
        list_display = PNone, list_editable = PNone, exclude = PNone\<rparr>" None "[]"]
  by (simp add: SortableStackedInlineBase_get_fieldsets_def list_remove_def list_insert0_def)


text \<open>
  The lists are changed in place: when one list object stands under two groups, the
  field is put in front through the first and taken out again through the second.
\<close>

lemma get_fieldsets_shared_list:
  "SortableStackedInlineBase_get_fieldsets
     \<lparr>sortable = ''order'', ordering = PNone, form_fields = PNone,
      list_display = PNone, list_editable = PNone, exclude = PNone\<rparr>
     [[Title None, Options [(''fields'', 0)]], [Title (Some ''More''), Options [(''fields'', 0)]]]
     [PList [Name ''name'']]
   = Inr ([[Title None, Options [(''fields'', 0)]], [Title (Some ''More''), Options [(''fields'', 0)]]],
          [PList [Name ''name'']])"
  by (simp add: SortableStackedInlineBase_get_fieldsets_def list_remove_def list_insert0_def)


subsection \<open>Sequence numbers at save time\<close>

lemma next_order_int:
  "map_of max_order (s @ ''__max'') = Some (VInt N) \<Longrightarrow> next_order_of max_order s = Inr (VInt (N + 1))"
  by (simp add: next_order_of_def)

lemma next_order_none:
  "map_of max_order (s @ ''__max'') = Some VNone \<Longrightarrow> next_order_of max_order s = Inr (VInt 1)"
  by (simp add: next_order_of_def)

lemma aggregate_Max_some:
  "column_ints f rows \<noteq> [] \<Longrightarrow>
   map_of (objects_aggregate_Max rows f) (f @ ''__max'') = Some (VInt (Max (set (column_ints f rows))))"
  by (cases "column_ints f rows") (simp_all add: objects_aggregate_Max_def Max.set_eq_fold del: set_simps)

lemma aggregate_Max_none:
  "column_ints f rows = [] \<Longrightarrow>
   map_of (objects_aggregate_Max rows f) (f @ ''__max'') = Some VNone"
  by (simp add: objects_aggregate_Max_def)

text \<open>
  Claim C1.  When \<open>save_model\<close> is given an object with no primary key and the largest
  value of the sortable column over the rows of the table is \<open>N\<close>, it raises nothing and
  the framework's \<open>save_model\<close> is called with the object whose sortable attribute is
  \<open>N + 1\<close>, with the request, form and flag as given.
\<close>

theorem save_model_new_assigns_max_plus_one:
  assumes "pk obj = VNone"
    and "column_ints (sortable self) rows \<noteq> []"
    and "Max (set (column_ints (sortable self) rows)) = N"
  shows "SortableModelAdmin_save_model self (objects_aggregate_Max rows) super_save_model
           request obj form change =
         Inr (super_save_model request
                (obj\<lparr>attr := (attr obj)(sortable self \<mapsto> VInt (N + 1))\<rparr>) form change)"
  using assms aggregate_Max_some [of "sortable self" rows]
  by (simp add: SortableModelAdmin_save_model_def Let_def next_order_int)

text \<open>
  The rows hold 3, 7 and 5: the new object is saved with 8.
\<close>

theorem save_model_new_assigns_max_plus_one_witness:
  "SortableModelAdmin_save_model
     \<lparr>sortable = ''order'', ordering = PNone, form_fields = PNone,
      list_display = PNone, list_editable = PNone, exclude = PNone\<rparr>
     (objects_aggregate_Max
        [\<lparr>pk = VInt 1, attr = [''order'' \<mapsto> VInt 3]\<rparr>,
         \<lparr>pk = VInt 2, attr = [''order'' \<mapsto> VInt 7]\<rparr>,
         \<lparr>pk = VInt 3, attr = [''order'' \<mapsto> VInt 5]\<rparr>])
     (\<lambda>request obj form change. attr obj ''order'')
     () \<lparr>pk = VNone, attr = Map.empty\<rparr> () False
   = Inr (Some (VInt 8))"
  using save_model_new_assigns_max_plus_one [of "\<lparr>pk = VNone, attr = Map.empty\<rparr>"
      "\<lparr>sortable = ''order'', ordering = PNone, form_fields = PNone,
        list_display = PNone, list_editable = PNone, exclude = PNone\<rparr>"
      "[\<lparr>pk = VInt 1, attr = [''order'' \<mapsto> VInt 3]\<rparr>,
        \<lparr>pk = VInt 2, attr = [''order'' \<mapsto> VInt 7]\<rparr>,
        \<lparr>pk = VInt 3, attr = [''order'' \<mapsto> VInt 5]\<rparr>]"
      7 "\<lambda>request obj form change. attr obj ''order''" "()" "()" False]
  by simp

text \<open>
  Claim C5.  When \<open>save_model\<close> takes the creating branch and no row of the table has
  a value in the sortable column, so that the aggregate is \<open>None\<close>, no exception leaves
  \<open>save_model\<close> and the framework's \<open>save_model\<close> is called with the object whose
  sortable attribute is 1.
\<close>

theorem save_model_no_rows_assigns_one:
  assumes "\<not> truthy (pk obj)"
    and "column_ints (sortable self) rows = []"
  shows "SortableModelAdmin_save_model self (objects_aggregate_Max rows) super_save_model
           request obj form change =
         Inr (super_save_model request
                (obj\<lparr>attr := (attr obj)(sortable self \<mapsto> VInt 1)\<rparr>) form change)"
  using assms aggregate_Max_none [of "sortable self" rows]
  by (simp add: SortableModelAdmin_save_model_def Let_def next_order_none)

text \<open>
  The first object of an empty table is saved with 1.
\<close>

theorem save_model_no_rows_assigns_one_witness:
  "SortableModelAdmin_save_model
     \<lparr>sortable = ''order'', ordering = PNone, form_fields = PNone,
      list_display = PNone, list_editable = PNone, exclude = PNone\<rparr>
     (objects_aggregate_Max [])
     (\<lambda>request obj form change. attr obj ''order'')
     () \<lparr>pk = VNone, attr = Map.empty\<rparr> () False
   = Inr (Some (VInt 1))"
  using save_model_no_rows_assigns_one [of "\<lparr>pk = VNone, attr = Map.empty\<rparr>"
      "\<lparr>sortable = ''order'', ordering = PNone, form_fields = PNone,
        list_display = PNone, list_editable = PNone, exclude = PNone\<rparr>"
      "[]" "\<lambda>request obj form change. attr obj ''order''" "()" "()" False]
  by simp

text \<open>
  Claim C7 fails as stated.  An existing object whose primary key is 0 counts as new for
  \<open>not obj.pk\<close>: its sortable attribute 2 is replaced by 8, one more than the largest.
\<close>

theorem save_model_zero_pk_reassigned:
  "SortableModelAdmin_save_model
     \<lparr>sortable = ''order'', ordering = PNone, form_fields = PNone,
      list_display = PNone, list_editable = PNone, exclude = PNone\<rparr>
     (objects_aggregate_Max
        [\<lparr>pk = VInt 0, attr = [''order'' \<mapsto> VInt 2]\<rparr>,
         \<lparr>pk = VInt 1, attr = [''order'' \<mapsto> VInt 7]\<rparr>])
     (\<lambda>request obj form change. attr obj ''order'')
     () \<lparr>pk = VInt 0, attr = [''order'' \<mapsto> VInt 2]\<rparr> () True
   = Inr (Some (VInt 8))"
  by (simp add: SortableModelAdmin_save_model_def objects_aggregate_Max_def next_order_of_def)

text \<open>
  Claim C7, amended.  When the primary key of the object is truthy (not \<open>None\<close>, not 0,
  not the empty string), \<open>save_model\<close> hands the object to the framework's
  \<open>save_model\<close> as it is, whatever the aggregate would be.
\<close>

theorem save_model_truthy_pk_unchanged:
  assumes "truthy (pk obj)"
  shows "SortableModelAdmin_save_model self aggregate_Max super_save_model
           request obj form change =
         Inr (super_save_model request obj form change)"
  using assms by (simp add: SortableModelAdmin_save_model_def)

text \<open>
  The object with primary key 4 keeps its 7.
\<close>

theorem save_model_truthy_pk_unchanged_witness:
  "SortableModelAdmin_save_model
     \<lparr>sortable = ''order'', ordering = PNone, form_fields = PNone,
      list_display = PNone, list_editable = PNone, exclude = PNone\<rparr>
     (objects_aggregate_Max [\<lparr>pk = VInt 4, attr = [''order'' \<mapsto> VInt 7]\<rparr>])
     (\<lambda>request obj form change. attr obj ''order'')
     () \<lparr>pk = VInt 4, attr = [''order'' \<mapsto> VInt 7]\<rparr> () True
   = Inr (Some (VInt 7))"
  using save_model_truthy_pk_unchanged [of "\<lparr>pk = VInt 4, attr = [''order'' \<mapsto> VInt 7]\<rparr>"
      "\<lparr>sortable = ''order'', ordering = PNone, form_fields = PNone,
        list_display = PNone, list_editable = PNone, exclude = PNone\<rparr>"
      "objects_aggregate_Max [\<lparr>pk = VInt 4, attr = [''order'' \<mapsto> VInt 7]\<rparr>]"
      "\<lambda>request obj form change. attr obj ''order''" "()" "()" True]
  by simp


subsection \<open>The shared order widget is never changed\<close>

lemma stacked_step_sortable:
  assumes "shared_ok st" and "n = sortable self"
  shows "SortableStackedInlineBase_formfield_for_dbfield self n kw st =
         Inr (AList.update ''widget'' (Widget (length (heap st))) kw,
              st\<lparr>heap := heap st @
                [\<lparr>attrs = [(''class'', ''hide input-mini suit-sortable suit-sortable-stacked''),
                           (''rowclass'', '' suit-sortable-stacked-row'')]\<rparr>]\<rparr>)"
proof -
  from assms(1) have m: "map_of (Meta_widgets st) ''order'' = Some 0"
    and a: "attrs (heap st ! 0) = [(''class'', ''hide input-mini suit-sortable'')]"
    and ne: "heap st \<noteq> []"
    by (simp_all add: shared_ok_def)
  from ne have nth0: "(heap st @ [heap st ! 0]) ! length (heap st) = heap st ! 0"
    by simp
  have w: "heap st ! 0 = \<lparr>attrs = [(''class'', ''hide input-mini suit-sortable'')]\<rparr>"
    using a by (cases "heap st ! 0") simp
  show ?thesis
    by (simp add: SortableStackedInlineBase_formfield_for_dbfield_def assms(2) m deepcopy_def
          attrs_iadd_def attrs_set_def nth0 w)
qed

lemma stacked_step_other:
  assumes "n \<noteq> sortable self"
  shows "SortableStackedInlineBase_formfield_for_dbfield self n kw st = Inr (kw, st)"
  using assms by (simp add: SortableStackedInlineBase_formfield_for_dbfield_def)

lemma shared_ok_grow: "shared_ok st \<Longrightarrow> shared_ok (st\<lparr>heap := heap st @ ext\<rparr>)"
  by (simp add: shared_ok_def nth_append)

lemma shared_ok_init: "shared_ok module_init"
  by (simp add: shared_ok_def module_init_def)

lemma stacked_calls_frame:
  assumes "shared_ok st"
  shows "\<exists>kws ext. stacked_calls self ns st = Inr (kws, st\<lparr>heap := heap st @ ext\<rparr>) \<and>
           length kws = length ns \<and>
           (\<forall>i<length ns. ns ! i = sortable self \<longrightarrow>
              widget_attrs (kws ! i) (st\<lparr>heap := heap st @ ext\<rparr>) = Some stacked_attrs)"
  using assms
proof (induction ns arbitrary: st)
  case Nil
  have "stacked_calls self [] st = Inr ([], st\<lparr>heap := heap st @ []\<rparr>)" by simp
  then show ?case
    by (intro exI [of _ "[]"]) simp
next
  case (Cons n ns)
  show ?case
  proof (cases "n = sortable self")
    case True
    define w where "w = \<lparr>attrs = stacked_attrs\<rparr>"
    define st1 where "st1 = st\<lparr>heap := heap st @ [w]\<rparr>"
    have step: "SortableStackedInlineBase_formfield_for_dbfield self n [] st =
                Inr ([(''widget'', Widget (length (heap st)))], st1)"
      using stacked_step_sortable [OF Cons.prems True, of "[]"]
      by (simp add: st1_def w_def stacked_attrs_def)
    have ok1: "shared_ok st1"
      unfolding st1_def by (rule shared_ok_grow [OF Cons.prems])
    from Cons.IH [OF ok1] obtain kws ext where
      r: "stacked_calls self ns st1 = Inr (kws, st1\<lparr>heap := heap st1 @ ext\<rparr>)"
      and l: "length kws = length ns"
      and a: "\<forall>i<length ns. ns ! i = sortable self \<longrightarrow>
              widget_attrs (kws ! i) (st1\<lparr>heap := heap st1 @ ext\<rparr>) = Some stacked_attrs"
      by blast
    have fin: "st1\<lparr>heap := heap st1 @ ext\<rparr> = st\<lparr>heap := heap st @ (w # ext)\<rparr>"
      by (simp add: st1_def)
    have res: "stacked_calls self (n # ns) st =
               Inr ([(''widget'', Widget (length (heap st)))] # kws,
                    st\<lparr>heap := heap st @ (w # ext)\<rparr>)"
      by (simp add: step r fin)
    have first: "widget_attrs [(''widget'', Widget (length (heap st)))]
                   (st\<lparr>heap := heap st @ (w # ext)\<rparr>) = Some stacked_attrs"
      by (simp add: widget_attrs_def w_def)
    have all: "\<forall>i<length (n # ns). (n # ns) ! i = sortable self \<longrightarrow>
              widget_attrs (([(''widget'', Widget (length (heap st)))] # kws) ! i)
                (st\<lparr>heap := heap st @ (w # ext)\<rparr>) = Some stacked_attrs"
    proof (intro allI impI)
      fix i assume "i < length (n # ns)" and "(n # ns) ! i = sortable self"
      then show "widget_attrs (([(''widget'', Widget (length (heap st)))] # kws) ! i)
                (st\<lparr>heap := heap st @ (w # ext)\<rparr>) = Some stacked_attrs"
        using a first unfolding fin by (cases i) simp_all
    qed
    from res l all show ?thesis
      by (intro exI [of _ "[(''widget'', Widget (length (heap st)))] # kws"] exI [of _ "w # ext"]) simp
  next
    case False
    have step: "SortableStackedInlineBase_formfield_for_dbfield self n [] st = Inr ([], st)"
      by (rule stacked_step_other [OF False])
    from Cons.IH [OF Cons.prems] obtain kws ext where
      r: "stacked_calls self ns st = Inr (kws, st\<lparr>heap := heap st @ ext\<rparr>)"
      and l: "length kws = length ns"
      and a: "\<forall>i<length ns. ns ! i = sortable self \<longrightarrow>
              widget_attrs (kws ! i) (st\<lparr>heap := heap st @ ext\<rparr>) = Some stacked_attrs"
      by blast
    have res: "stacked_calls self (n # ns) st = Inr ([] # kws, st\<lparr>heap := heap st @ ext\<rparr>)"
      by (simp add: step r)
    have all: "\<forall>i<length (n # ns). (n # ns) ! i = sortable self \<longrightarrow>
              widget_attrs (([] # kws) ! i) (st\<lparr>heap := heap st @ ext\<rparr>) = Some stacked_attrs"
    proof (intro allI impI)
      fix i assume "i < length (n # ns)" and "(n # ns) ! i = sortable self"
      then show "widget_attrs (([] # kws) ! i) (st\<lparr>heap := heap st @ ext\<rparr>) = Some stacked_attrs"
        using a False by (cases i) simp_all
    qed
    from res l all show ?thesis
      by (intro exI [of _ "[] # kws"] exI [of _ ext]) simp
  qed
qed

text \<open>
  Claim C10.  Starting from the module as imported, any sequence of calls of the stacked
  inline's \<open>formfield_for_dbfield\<close> raises nothing and leaves the shared widget under
  \<open>'order'\<close> with its one attribute, class \<open>hide input-mini suit-sortable\<close>; every
  call for the sortable field passed on a widget whose attributes are the class extended
  by \<open>suit-sortable-stacked\<close> and the row class.
\<close>

theorem stacked_widget_copy_keeps_shared:
  "\<exists>kws st. stacked_calls self names module_init = Inr (kws, st) \<and>
      length kws = length names \<and>
      Meta_widgets st = [(''order'', 0)] \<and>
      attrs (heap st ! 0) = [(''class'', ''hide input-mini suit-sortable'')] \<and>
      (\<forall>i<length names. names ! i = sortable self \<longrightarrow>
         widget_attrs (kws ! i) st =
           Some [(''class'', ''hide input-mini suit-sortable suit-sortable-stacked''),
                 (''rowclass'', '' suit-sortable-stacked-row'')])"
proof -
  from stacked_calls_frame [OF shared_ok_init, of self names] obtain kws ext where
    r: "stacked_calls self names module_init =
          Inr (kws, module_init\<lparr>heap := heap module_init @ ext\<rparr>)"
    and l: "length kws = length names"
    and a: "\<forall>i<length names. names ! i = sortable self \<longrightarrow>
              widget_attrs (kws ! i) (module_init\<lparr>heap := heap module_init @ ext\<rparr>) =
                Some stacked_attrs"
    by blast
  have ok: "shared_ok (module_init\<lparr>heap := heap module_init @ ext\<rparr>)"
    by (rule shared_ok_grow [OF shared_ok_init])
  show ?thesis
    using r l a ok unfolding shared_ok_def stacked_attrs_def by blast
qed

text \<open>
  Three calls, two of them for the sortable field.
\<close>

theorem stacked_widget_copy_keeps_shared_witness:
  "\<exists>kws st. stacked_calls
      \<lparr>sortable = ''order'', ordering = PNone, form_fields = PNone,
       list_display = PNone, list_editable = PNone, exclude = PNone\<rparr>
      [''order'', ''name'', ''order''] module_init = Inr (kws, st) \<and>
      length kws = 3 \<and>
      Meta_widgets st = [(''order'', 0)] \<and>
      attrs (heap st ! 0) = [(''class'', ''hide input-mini suit-sortable'')] \<and>
      widget_attrs (kws ! 0) st =
           Some [(''class'', ''hide input-mini suit-sortable suit-sortable-stacked''),
                 (''rowclass'', '' suit-sortable-stacked-row'')] \<and>
      widget_attrs (kws ! 2) st =
           Some [(''class'', ''hide input-mini suit-sortable suit-sortable-stacked''),
                 (''rowclass'', '' suit-sortable-stacked-row'')]"
  using stacked_widget_copy_keeps_shared [of "\<lparr>sortable = ''order'', ordering = PNone, form_fields = PNone,
       list_display = PNone, list_editable = PNone, exclude = PNone\<rparr>"
      "[''order'', ''name'', ''order'']"]
  by (auto simp: numeral_3_eq_3)


subsection \<open>Optional patches that are absent or cannot be imported\<close>

text \<open>
  Claim C6.  When each of the two packages is missing from the installed applications or
  its import raises \<open>ImportError\<close>, the two blocks raise nothing and leave both the page
  form's widgets and \<open>ModelAdmin.get_list_filter\<close> as they were.
\<close>

theorem load_patches_absent_or_unimportable:
  assumes "''cms'' \<notin> set (INSTALLED_APPS env) \<or> import_cms_admin_forms env = Raises ImportError"
    and "''content_status'' \<notin> set (INSTALLED_APPS env) \<or>
         import_content_status env = Raises ImportError"
  shows "load_patches env p = Inr p"
  using assms by (auto simp: load_patches_def cms_patch_def content_status_patch_def)

text \<open>
  \<open>cms\<close> installed but not importable, \<open>content_status\<close> not installed.
\<close>

theorem load_patches_absent_or_unimportable_witness:
  "load_patches
     \<lparr>INSTALLED_APPS = [''django.contrib.admin'', ''suit'', ''cms''],
      import_cms_admin_forms = Raises ImportError, import_content_status = Raises ImportError\<rparr>
     \<lparr>PageForm_Meta_widgets = None, ModelAdmin_get_list_filter = framework_get_list_filter\<rparr>
   = Inr \<lparr>PageForm_Meta_widgets = None, ModelAdmin_get_list_filter = framework_get_list_filter\<rparr>"
  using load_patches_absent_or_unimportable [of "\<lparr>INSTALLED_APPS = [''django.contrib.admin'', ''suit'', ''cms''],
      import_cms_admin_forms = Raises ImportError, import_content_status = Raises ImportError\<rparr>"
      "\<lparr>PageForm_Meta_widgets = None, ModelAdmin_get_list_filter = framework_get_list_filter\<rparr>"]
  by simp

end
